theory Spec2Isabelle
  imports Main "HOL-Library.Sublist"
begin

section \<open>The token stream of encoding/xml\<close>

text \<open>
  The package \<^verbatim>\<open>wsdl\<close> (file \<^verbatim>\<open>wsdl/types.go\<close>) declares the document model of a WSDL
  file as Go structs whose field tags drive \<^verbatim>\<open>encoding/xml\<close>, and one hand-written
  decoding method, \<^verbatim>\<open>(*RestrictionAttr).UnmarshalXML\<close>.  The method receives the
  decoder and the start tag of the element, so the tokens of \<^verbatim>\<open>encoding/xml\<close> come
  first: a name is a namespace and a local part, an attribute a name and a value, a
  start tag a name and its attributes in document order.  Go strings are byte
  sequences, here \<^typ>\<open>string\<close>.  The tokenizer resolves prefixes, so an attribute
  \<^verbatim>\<open>p:n\<close> has the local name \<^verbatim>\<open>n\<close>, and a namespace declaration \<^verbatim>\<open>xmlns:n\<close> is an
  attribute with the space \<^verbatim>\<open>xmlns\<close> and the local name \<^verbatim>\<open>n\<close>.  Of a processing
  instruction nothing is kept: no decoder looks at one, and \<open>ProcInst\<close> stands for any
  that the tokenizer has let pass.
\<close>

record Name =
  Space :: string
  Local :: string

record Attr =
  Attr_Name :: Name
  Attr_Value :: string

record StartElement =
  StartElement_Name :: Name
  StartElement_Attr :: "Attr list"

datatype Token =
    StartElementT StartElement
  | EndElementT Name
  | CharData string
  | Comment string
  | ProcInst
  | Directive string

text \<open>
  Errors are values.  \<open>Errorf\<close> carries the message of \<^verbatim>\<open>fmt.Errorf\<close>, \<open>SyntaxError\<close> and
  \<open>EOF\<close> are what the tokenizer reports when the input ends, \<open>UnmarshalError\<close> and
  \<open>NumError\<close> are raised by the reflective decoder and by \<^verbatim>\<open>strconv\<close>.
\<close>

datatype num_err = ErrSyntax | ErrRange

datatype error =
    Errorf string
  | SyntaxError string
  | UnmarshalError string
  | NumError string string num_err
  | EOF

text \<open>
  Of the decoder only its position in the input matters here: the state of a
  \<^verbatim>\<open>*xml.Decoder\<close> is the list of tokens it has still to deliver.  \<^verbatim>\<open>d.Skip()\<close> reads
  tokens up to the end tag that closes the element whose start tag was read last,
  counting nested start tags; it fails when the input ends first.  (The counter is an
  \<^verbatim>\<open>int64\<close> in Go; no input holds \<open>2^63\<close> nested start tags, so it is a \<^typ>\<open>nat\<close>.)
\<close>

type_synonym Decoder = "Token list"

fun Skip_loop :: "nat \<Rightarrow> Decoder \<Rightarrow> error option \<times> Decoder" where
  "Skip_loop depth [] = (Some (SyntaxError ''unexpected EOF''), [])"
| "Skip_loop depth (StartElementT s # d) = Skip_loop (depth + 1) d"
| "Skip_loop depth (EndElementT n # d) =
     (if depth = 0 then (None, d) else Skip_loop (depth - 1) d)"
| "Skip_loop depth (t # d) = Skip_loop depth d"

definition Skip :: "Decoder \<Rightarrow> error option \<times> Decoder" where
  "Skip d = Skip_loop 0 d"

section \<open>RestrictionAttr and its UnmarshalXML\<close>

text \<open>
  \<^verbatim>\<open>strings.Split(s, ":")\<close> for the one-byte separator the method passes: the pieces of
  \<open>s\<close> between the separators, in order; a string of \<open>k\<close> separators has \<open>k + 1\<close>
  pieces, so the result is never empty.
\<close>

fun Split :: "string \<Rightarrow> char \<Rightarrow> string list" where
  "Split [] sep = [[]]"
| "Split (c # s) sep =
     (if c = sep then [] # Split s sep
      else (c # hd (Split s sep)) # tl (Split s sep))"

record RestrictionAttr =
  RestrictionAttr_XMLName :: Name
  RestrictionAttr_Ref :: string
  RestrictionAttr_Key :: string
  RestrictionAttr_Value :: string

text \<open>The zero values \<^verbatim>\<open>xml.Name{}\<close> and \<^verbatim>\<open>RestrictionAttr{}\<close>.\<close>

definition zero_Name :: Name where
  "zero_Name = \<lparr>Space = [], Local = []\<rparr>"

definition zero_RestrictionAttr :: RestrictionAttr where
  "zero_RestrictionAttr =
     \<lparr>RestrictionAttr_XMLName = zero_Name, RestrictionAttr_Ref = [],
      RestrictionAttr_Key = [], RestrictionAttr_Value = []\<rparr>"

text \<open>
  The two loops of the method, each leaving at its first match (\<^verbatim>\<open>break\<close>).  The first
  stores the value of the attribute with local name \<^verbatim>\<open>ref\<close> and the last piece of its
  split as the key, read as \<^verbatim>\<open>split[len(split)-1]\<close>; the second stores the value of the
  attribute whose local name is the key.
\<close>

fun ref_loop :: "Attr list \<Rightarrow> RestrictionAttr \<Rightarrow> RestrictionAttr" where
  "ref_loop [] a = a"
| "ref_loop (attr # attrs) a =
     (if Local (Attr_Name attr) = ''ref''
      then (let split = Split (Attr_Value attr) CHR '':''
            in a\<lparr>RestrictionAttr_Ref := Attr_Value attr,
                 RestrictionAttr_Key := split ! (length split - 1)\<rparr>)
      else ref_loop attrs a)"

fun value_loop :: "Attr list \<Rightarrow> RestrictionAttr \<Rightarrow> RestrictionAttr" where
  "value_loop [] a = a"
| "value_loop (attr # attrs) a =
     (if Local (Attr_Name attr) = RestrictionAttr_Key a
      then a\<lparr>RestrictionAttr_Value := Attr_Value attr\<rparr>
      else value_loop attrs a)"

text \<open>
  \<^verbatim>\<open>func (a *RestrictionAttr) UnmarshalXML(d *xml.Decoder, start xml.StartElement) error\<close>.
  The receiver is passed in and returned, the decoder likewise; the error is \<open>None\<close>
  for \<^verbatim>\<open>nil\<close>.
\<close>

definition UnmarshalXML ::
  "RestrictionAttr \<Rightarrow> Decoder \<Rightarrow> StartElement \<Rightarrow> error option \<times> RestrictionAttr \<times> Decoder" where
  "UnmarshalXML a0 d start =
     (let a = zero_RestrictionAttr;
          a = a\<lparr>RestrictionAttr_XMLName := StartElement_Name start\<rparr>;
          a = ref_loop (StartElement_Attr start) a
      in if length (RestrictionAttr_Key a) = 0
         then (Some (Errorf ''No ref cound''), a, d)
         else (let a = value_loop (StartElement_Attr start) a;
                   (err, d') = Skip d
               in (err, a, d')))"

section \<open>Well-formed input as trees\<close>

text \<open>
  The tokenizer only delivers well-nested token sequences (anything else is a syntax
  error before a decoder sees it), so a well-formed input is a list of nodes, and
  \<open>tokens\<close> gives the sequence the decoder reads for it.  The tokenizer also refuses
  an XML declaration that names a version other than 1.0 or, the decoder having no
  \<^verbatim>\<open>CharsetReader\<close>, an encoding other than UTF-8; such an input is no list of nodes
  either, and \<open>ProcInstN\<close> is a processing instruction that has passed.
\<close>

datatype Node =
    Elem StartElement "Node list"
  | CharDataN string
  | CommentN string
  | ProcInstN
  | DirectiveN string

fun tokens :: "Node \<Rightarrow> Token list"
and tokens_list :: "Node list \<Rightarrow> Token list" where
  "tokens (Elem s cs) = StartElementT s # tokens_list cs @ [EndElementT (StartElement_Name s)]"
| "tokens (CharDataN t) = [CharData t]"
| "tokens (CommentN t) = [Comment t]"
| "tokens ProcInstN = [ProcInst]"
| "tokens (DirectiveN t) = [Directive t]"
| "tokens_list [] = []"
| "tokens_list (c # cs) = tokens c @ tokens_list cs"

section \<open>The reflective decoder of encoding/xml, as the struct tags instruct it\<close>

text \<open>
  \<^verbatim>\<open>encoding/xml\<close> decodes a struct in three steps: it checks the element name against
  the tag of the \<^verbatim>\<open>XMLName\<close> field and stores the name there, it assigns every
  attribute to the \<^verbatim>\<open>,attr\<close> field of that local name, and it hands every child
  element to the field whose tag names it, skipping a child that no field names.
  A pointer field is allocated at its first child and reused afterwards, a slice
  field grows by one element per child, a value field is decoded in place, a tag
  \<^verbatim>\<open>a>b\<close> descends through \<^verbatim>\<open>a\<close>.  The first error ends the decoding.  \<open>foldM\<close> is that
  loop over attributes or children.
\<close>

fun foldM :: "('b \<Rightarrow> 'a \<Rightarrow> error + 'a) \<Rightarrow> 'b list \<Rightarrow> 'a \<Rightarrow> error + 'a" where
  "foldM f [] v = Inr v"
| "foldM f (x # xs) v = (case f x v of Inl e \<Rightarrow> Inl e | Inr v' \<Rightarrow> foldM f xs v')"

text \<open>
  Integer and boolean fields go through \<^verbatim>\<open>copyValue\<close>: an empty value gives the zero
  value, anything else is trimmed by \<^verbatim>\<open>strings.TrimSpace\<close> and parsed by
  \<^verbatim>\<open>strconv.ParseInt(s, 10, 64)\<close> or \<^verbatim>\<open>strconv.ParseBool\<close>.  \<open>space_runes\<close> are the UTF-8
  encodings of the code points for which \<^verbatim>\<open>unicode.IsSpace\<close> holds.
\<close>

definition space_runes :: "string list" where
  "space_runes =
     [[CHR 0x09], [CHR 0x0A], [CHR 0x0B], [CHR 0x0C], [CHR 0x0D], [CHR 0x20],
      [CHR 0xC2, CHR 0x85], [CHR 0xC2, CHR 0xA0], [CHR 0xE1, CHR 0x9A, CHR 0x80],
      [CHR 0xE2, CHR 0x80, CHR 0x80], [CHR 0xE2, CHR 0x80, CHR 0x81],
      [CHR 0xE2, CHR 0x80, CHR 0x82], [CHR 0xE2, CHR 0x80, CHR 0x83],
      [CHR 0xE2, CHR 0x80, CHR 0x84], [CHR 0xE2, CHR 0x80, CHR 0x85],
      [CHR 0xE2, CHR 0x80, CHR 0x86], [CHR 0xE2, CHR 0x80, CHR 0x87],
      [CHR 0xE2, CHR 0x80, CHR 0x88], [CHR 0xE2, CHR 0x80, CHR 0x89],
      [CHR 0xE2, CHR 0x80, CHR 0x8A], [CHR 0xE2, CHR 0x80, CHR 0xA8],
      [CHR 0xE2, CHR 0x80, CHR 0xA9], [CHR 0xE2, CHR 0x80, CHR 0xAF],
      [CHR 0xE2, CHR 0x81, CHR 0x9F], [CHR 0xE3, CHR 0x80, CHR 0x80]]"

function TrimLeft :: "string \<Rightarrow> string" where
  "TrimLeft [] = []"
| "TrimLeft (c # s) =
     (case find (\<lambda>r. prefix r (c # s)) space_runes of
        None \<Rightarrow> c # s
      | Some r \<Rightarrow> TrimLeft (drop (length r) (c # s)))"
  by pat_completeness auto
termination
proof (relation "measure length")
  show "wf (measure length)" by simp
next
  fix c s r
  assume "find (\<lambda>r. prefix r (c # s)) space_runes = Some r"
  then have "r \<in> set space_runes"
    by (auto simp: find_Some_iff)
  then have "r \<noteq> []"
    by (auto simp: space_runes_def)
  then show "(drop (length r) (c # s), c # s) \<in> measure length"
    by (cases r) auto
qed

function TrimRight :: "string \<Rightarrow> string" where
  "TrimRight [] = []"
| "TrimRight (c # s) =
     (case find (\<lambda>r. suffix r (c # s)) space_runes of
        None \<Rightarrow> c # s
      | Some r \<Rightarrow> TrimRight (take (length (c # s) - length r) (c # s)))"
  by pat_completeness auto
termination
proof (relation "measure length")
  show "wf (measure length)" by simp
next
  fix c s r
  assume "find (\<lambda>r. suffix r (c # s)) space_runes = Some r"
  then have "r \<in> set space_runes"
    by (auto simp: find_Some_iff)
  then have "r \<noteq> []"
    by (auto simp: space_runes_def)
  then show "(take (length (c # s) - length r) (c # s), c # s) \<in> measure length"
    by (cases r) auto
qed

definition TrimSpace :: "string \<Rightarrow> string" where
  "TrimSpace s = TrimRight (TrimLeft s)"

fun ParseUint_loop :: "nat \<Rightarrow> string \<Rightarrow> num_err + nat" where
  "ParseUint_loop n [] = Inr n"
| "ParseUint_loop n (c # s) =
     (if 48 \<le> (of_char c :: nat) \<and> (of_char c :: nat) \<le> 57
      then (let n1 = n * 10 + (of_char c - 48)
            in if n1 > 2 ^ 64 - 1 then Inl ErrRange else ParseUint_loop n1 s)
      else Inl ErrSyntax)"

definition ParseUint :: "string \<Rightarrow> num_err + nat" where
  "ParseUint s = (if s = [] then Inl ErrSyntax else ParseUint_loop 0 s)"

definition ParseInt :: "string \<Rightarrow> error + int" where
  "ParseInt s0 =
     (if s0 = [] then Inl (NumError ''ParseInt'' s0 ErrSyntax)
      else
        (let neg = (hd s0 = CHR ''-'');
             s = (if hd s0 = CHR ''+'' \<or> neg then tl s0 else s0)
         in case ParseUint s of
              Inl e \<Rightarrow> Inl (NumError ''ParseInt'' s0 e)
            | Inr un \<Rightarrow>
                if \<not> neg \<and> un \<ge> 2 ^ 63 then Inl (NumError ''ParseInt'' s0 ErrRange)
                else if neg \<and> un > 2 ^ 63 then Inl (NumError ''ParseInt'' s0 ErrRange)
                else Inr (if neg then - int un else int un)))"

definition ParseBool :: "string \<Rightarrow> error + bool" where
  "ParseBool str =
     (if str \<in> set [''1'', ''t'', ''T'', ''TRUE'', ''true'', ''True''] then Inr True
      else if str \<in> set [''0'', ''f'', ''F'', ''FALSE'', ''false'', ''False''] then Inr False
      else Inl (NumError ''ParseBool'' str ErrSyntax))"

definition copyValue_int :: "string \<Rightarrow> error + int" where
  "copyValue_int src = (if length src = 0 then Inr 0 else ParseInt (TrimSpace src))"

definition copyValue_bool :: "string \<Rightarrow> error + bool" where
  "copyValue_bool src = (if length src = 0 then Inr False else ParseBool (TrimSpace src))"

text \<open>
  \<open>struct_start\<close> is the part of the struct decoder before the children: the name
  check (no check for an empty tag), the assignment of \<^verbatim>\<open>XMLName\<close>, the attribute loop.
  \<open>assign\<close> stores a decoded field, \<open>new_or\<close> is the pointer field that is allocated
  when nil, \<open>chardata\<close> is what a string field collects from an element: its own
  character data, not that of nested elements.
\<close>

definition expected :: "string \<Rightarrow> StartElement \<Rightarrow> error" where
  "expected tag start =
     UnmarshalError (''expected element type <'' @ tag @ ''> but have <'' @
                     Local (StartElement_Name start) @ ''>'')"

definition struct_start ::
  "string \<Rightarrow> (Name \<Rightarrow> 'a \<Rightarrow> 'a) \<Rightarrow> (Attr \<Rightarrow> 'a \<Rightarrow> error + 'a) \<Rightarrow> 'a \<Rightarrow> StartElement
     \<Rightarrow> error + 'a" where
  "struct_start tag set_XMLName attr v start =
     (if tag \<noteq> [] \<and> tag \<noteq> Local (StartElement_Name start) then Inl (expected tag start)
      else foldM attr (StartElement_Attr start) (set_XMLName (StartElement_Name start) v))"

definition assign :: "('b \<Rightarrow> 'a) \<Rightarrow> error + 'b \<Rightarrow> error + 'a" where
  "assign f r = (case r of Inl e \<Rightarrow> Inl e | Inr x \<Rightarrow> Inr (f x))"

definition new_or :: "'a \<Rightarrow> 'a option \<Rightarrow> 'a" where
  "new_or zero p = (case p of None \<Rightarrow> zero | Some x \<Rightarrow> x)"

fun chardata :: "Node list \<Rightarrow> string" where
  "chardata [] = []"
| "chardata (CharDataN t # cs) = t @ chardata cs"
| "chardata (c # cs) = chardata cs"

definition local :: "StartElement \<Rightarrow> string" where
  "local s = Local (StartElement_Name s)"

section \<open>The schema types\<close>

text \<open>
  The structs of \<^verbatim>\<open>types.go\<close>, each field under the name \<open>Struct_Field\<close>.  A pointer
  field is an option, a slice of pointers a list.  \<open>ComplexType\<close>, \<open>ComplexContent\<close>,
  \<open>Extension\<close>, \<open>Sequence\<close> and \<open>Element\<close> refer to each other and form one mutually
  recursive datatype; the other structs are records.  Note \<open>Sequence\<close>: three slices,
  one per kind of child.
\<close>

record Enum =
  Enum_XMLName :: Name
  Enum_Value :: string

record Restriction =
  Restriction_XMLName :: Name
  Restriction_Base :: string
  Restriction_Enum :: "Enum list"
  Restriction_Attribute :: "RestrictionAttr option"

record AnyElement =
  AnyElement_XMLName :: Name
  AnyElement_Min :: int
  AnyElement_Max :: string

datatype ComplexType = ComplexType
    (ComplexType_XMLName: Name)
    (ComplexType_Name: string)
    (ComplexType_Abstract: bool)
    (ComplexType_Doc: string)
    (ComplexType_AllElements: "Element list")
    (ComplexType_ComplexContent: "ComplexContent option")
    (ComplexType_Sequence: "Sequence option")
and ComplexContent = ComplexContent
    (ComplexContent_XMLName: Name)
    (ComplexContent_Extension: "Extension option")
    (ComplexContent_Restriction: "Restriction option")
and Extension = Extension
    (Extension_XMLName: Name)
    (Extension_Base: string)
    (Extension_Sequence: "Sequence option")
and Sequence = Sequence
    (Sequence_XMLName: Name)
    (Sequence_ComplexTypes: "ComplexType list")
    (Sequence_Elements: "Element list")
    (Sequence_Any: "AnyElement list")
and Element = Element
    (Element_XMLName: Name)
    (Element_Name: string)
    (Element_Ref: string)
    (Element_Type: string)
    (Element_Min: int)
    (Element_Max: string)
    (Element_Nillable: bool)
    (Element_ComplexType: "ComplexType option")

definition zero_Enum :: Enum where
  "zero_Enum = \<lparr>Enum_XMLName = zero_Name, Enum_Value = []\<rparr>"

definition zero_Restriction :: Restriction where
  "zero_Restriction =
     \<lparr>Restriction_XMLName = zero_Name, Restriction_Base = [], Restriction_Enum = [],
      Restriction_Attribute = None\<rparr>"

definition zero_AnyElement :: AnyElement where
  "zero_AnyElement = \<lparr>AnyElement_XMLName = zero_Name, AnyElement_Min = 0, AnyElement_Max = []\<rparr>"

definition zero_ComplexType :: ComplexType where
  "zero_ComplexType = ComplexType zero_Name [] False [] [] None None"

definition zero_ComplexContent :: ComplexContent where
  "zero_ComplexContent = ComplexContent zero_Name None None"

definition zero_Extension :: Extension where
  "zero_Extension = Extension zero_Name [] None"

definition zero_Sequence :: Sequence where
  "zero_Sequence = Sequence zero_Name [] [] []"

definition zero_Element :: Element where
  "zero_Element = Element zero_Name [] [] [] 0 [] False None"

text \<open>
  A field whose type has an \<^verbatim>\<open>UnmarshalXML\<close> method is decoded by that method
  (\<^verbatim>\<open>unmarshalInterface\<close>): the decoder is confined to the element (its children and
  its end tag), an error of the method is returned as it is, and a method that
  returns without having read the end tag is an error of its own.
\<close>

definition unmarshalInterface ::
  "RestrictionAttr \<Rightarrow> StartElement \<Rightarrow> Node list \<Rightarrow> error + RestrictionAttr" where
  "unmarshalInterface val start cs =
     (case UnmarshalXML val (tokens_list cs @ [EndElementT (StartElement_Name start)]) start of
        (Some err, a, d) \<Rightarrow> Inl err
      | (None, a, d) \<Rightarrow>
          if d = [] then Inr a
          else Inl (Errorf (''xml: (*wsdl.RestrictionAttr).UnmarshalXML did not consume entire <''
                            @ local start @ ''> element'')))"

text \<open>The decoders of \<open>Enum\<close>, \<open>AnyElement\<close> and \<open>Restriction\<close>, field by field.\<close>

definition Enum_attr :: "Attr \<Rightarrow> Enum \<Rightarrow> error + Enum" where
  "Enum_attr a v =
     (if Local (Attr_Name a) = ''value'' then Inr (v\<lparr>Enum_Value := Attr_Value a\<rparr>)
      else Inr v)"

definition unmarshal_Enum :: "Enum \<Rightarrow> StartElement \<Rightarrow> Node list \<Rightarrow> error + Enum" where
  "unmarshal_Enum v start cs =
     struct_start ''enumeration'' (\<lambda>n. Enum_XMLName_update (\<lambda>_. n)) Enum_attr v start"

definition AnyElement_attr :: "Attr \<Rightarrow> AnyElement \<Rightarrow> error + AnyElement" where
  "AnyElement_attr a v =
     (if Local (Attr_Name a) = ''minOccurs''
      then assign (\<lambda>i. v\<lparr>AnyElement_Min := i\<rparr>) (copyValue_int (Attr_Value a))
      else if Local (Attr_Name a) = ''maxOccurs'' then Inr (v\<lparr>AnyElement_Max := Attr_Value a\<rparr>)
      else Inr v)"

definition unmarshal_AnyElement ::
  "AnyElement \<Rightarrow> StartElement \<Rightarrow> Node list \<Rightarrow> error + AnyElement" where
  "unmarshal_AnyElement v start cs =
     struct_start ''any'' (\<lambda>n. AnyElement_XMLName_update (\<lambda>_. n)) AnyElement_attr v start"

definition Restriction_attr :: "Attr \<Rightarrow> Restriction \<Rightarrow> error + Restriction" where
  "Restriction_attr a v =
     (if Local (Attr_Name a) = ''base'' then Inr (v\<lparr>Restriction_Base := Attr_Value a\<rparr>)
      else Inr v)"

fun Restriction_child :: "Node \<Rightarrow> Restriction \<Rightarrow> error + Restriction" where
  "Restriction_child (Elem s cs) v =
     (if local s = ''enumeration''
      then assign (\<lambda>x. v\<lparr>Restriction_Enum := Restriction_Enum v @ [x]\<rparr>)
             (unmarshal_Enum zero_Enum s cs)
      else if local s = ''attribute''
      then assign (\<lambda>x. v\<lparr>Restriction_Attribute := Some x\<rparr>)
             (unmarshalInterface (new_or zero_RestrictionAttr (Restriction_Attribute v)) s cs)
      else Inr v)"
| "Restriction_child c v = Inr v"

definition unmarshal_Restriction ::
  "Restriction \<Rightarrow> StartElement \<Rightarrow> Node list \<Rightarrow> error + Restriction" where
  "unmarshal_Restriction v start cs =
     (case struct_start ''restriction'' (\<lambda>n. Restriction_XMLName_update (\<lambda>_. n))
             Restriction_attr v start of
        Inl e \<Rightarrow> Inl e
      | Inr v' \<Rightarrow> foldM Restriction_child cs v')"

text \<open>The attribute fields and the field updates of the five recursive structs.\<close>

fun ComplexType_attr :: "Attr \<Rightarrow> ComplexType \<Rightarrow> error + ComplexType" where
  "ComplexType_attr a (ComplexType xn nm ab doc al cc sq) =
     (if Local (Attr_Name a) = ''name'' then Inr (ComplexType xn (Attr_Value a) ab doc al cc sq)
      else if Local (Attr_Name a) = ''abstract''
      then assign (\<lambda>b. ComplexType xn nm b doc al cc sq) (copyValue_bool (Attr_Value a))
      else Inr (ComplexType xn nm ab doc al cc sq))"

fun Extension_attr :: "Attr \<Rightarrow> Extension \<Rightarrow> error + Extension" where
  "Extension_attr a (Extension xn bs sq) =
     (if Local (Attr_Name a) = ''base'' then Inr (Extension xn (Attr_Value a) sq)
      else Inr (Extension xn bs sq))"

fun Element_attr :: "Attr \<Rightarrow> Element \<Rightarrow> error + Element" where
  "Element_attr a (Element xn nm rf ty mn mx nl ct) =
     (if Local (Attr_Name a) = ''name'' then Inr (Element xn (Attr_Value a) rf ty mn mx nl ct)
      else if Local (Attr_Name a) = ''ref'' then Inr (Element xn nm (Attr_Value a) ty mn mx nl ct)
      else if Local (Attr_Name a) = ''type'' then Inr (Element xn nm rf (Attr_Value a) mn mx nl ct)
      else if Local (Attr_Name a) = ''minOccurs''
      then assign (\<lambda>i. Element xn nm rf ty i mx nl ct) (copyValue_int (Attr_Value a))
      else if Local (Attr_Name a) = ''maxOccurs''
      then Inr (Element xn nm rf ty mn (Attr_Value a) nl ct)
      else if Local (Attr_Name a) = ''nillable''
      then assign (\<lambda>b. Element xn nm rf ty mn mx b ct) (copyValue_bool (Attr_Value a))
      else Inr (Element xn nm rf ty mn mx nl ct))"

fun set_ComplexType_XMLName :: "Name \<Rightarrow> ComplexType \<Rightarrow> ComplexType" where
  "set_ComplexType_XMLName n (ComplexType xn nm ab doc al cc sq) = ComplexType n nm ab doc al cc sq"

fun set_ComplexType_Doc :: "string \<Rightarrow> ComplexType \<Rightarrow> ComplexType" where
  "set_ComplexType_Doc d (ComplexType xn nm ab doc al cc sq) = ComplexType xn nm ab d al cc sq"

fun set_ComplexType_AllElements :: "Element list \<Rightarrow> ComplexType \<Rightarrow> ComplexType" where
  "set_ComplexType_AllElements x (ComplexType xn nm ab doc al cc sq) =
     ComplexType xn nm ab doc x cc sq"

fun set_ComplexType_ComplexContent :: "ComplexContent option \<Rightarrow> ComplexType \<Rightarrow> ComplexType" where
  "set_ComplexType_ComplexContent x (ComplexType xn nm ab doc al cc sq) =
     ComplexType xn nm ab doc al x sq"

fun set_ComplexType_Sequence :: "Sequence option \<Rightarrow> ComplexType \<Rightarrow> ComplexType" where
  "set_ComplexType_Sequence x (ComplexType xn nm ab doc al cc sq) =
     ComplexType xn nm ab doc al cc x"

fun set_ComplexContent_XMLName :: "Name \<Rightarrow> ComplexContent \<Rightarrow> ComplexContent" where
  "set_ComplexContent_XMLName n (ComplexContent xn ex rs) = ComplexContent n ex rs"

fun set_ComplexContent_Extension :: "Extension option \<Rightarrow> ComplexContent \<Rightarrow> ComplexContent" where
  "set_ComplexContent_Extension x (ComplexContent xn ex rs) = ComplexContent xn x rs"

fun set_ComplexContent_Restriction :: "Restriction option \<Rightarrow> ComplexContent \<Rightarrow> ComplexContent" where
  "set_ComplexContent_Restriction x (ComplexContent xn ex rs) = ComplexContent xn ex x"

fun set_Extension_XMLName :: "Name \<Rightarrow> Extension \<Rightarrow> Extension" where
  "set_Extension_XMLName n (Extension xn bs sq) = Extension n bs sq"

fun set_Extension_Sequence :: "Sequence option \<Rightarrow> Extension \<Rightarrow> Extension" where
  "set_Extension_Sequence x (Extension xn bs sq) = Extension xn bs x"

fun set_Sequence_XMLName :: "Name \<Rightarrow> Sequence \<Rightarrow> Sequence" where
  "set_Sequence_XMLName n (Sequence xn cts els anys) = Sequence n cts els anys"

fun set_Sequence_ComplexTypes :: "ComplexType list \<Rightarrow> Sequence \<Rightarrow> Sequence" where
  "set_Sequence_ComplexTypes x (Sequence xn cts els anys) = Sequence xn x els anys"

fun set_Sequence_Elements :: "Element list \<Rightarrow> Sequence \<Rightarrow> Sequence" where
  "set_Sequence_Elements x (Sequence xn cts els anys) = Sequence xn cts x anys"

fun set_Sequence_Any :: "AnyElement list \<Rightarrow> Sequence \<Rightarrow> Sequence" where
  "set_Sequence_Any x (Sequence xn cts els anys) = Sequence xn cts els x"

fun set_Element_XMLName :: "Name \<Rightarrow> Element \<Rightarrow> Element" where
  "set_Element_XMLName n (Element xn nm rf ty mn mx nl ct) = Element n nm rf ty mn mx nl ct"

fun set_Element_ComplexType :: "ComplexType option \<Rightarrow> Element \<Rightarrow> Element" where
  "set_Element_ComplexType x (Element xn nm rf ty mn mx nl ct) = Element xn nm rf ty mn mx nl x"

text \<open>
  \<open>ComplexType.Doc\<close> has the tag \<^verbatim>\<open>annotation>documentation\<close>: inside an \<^verbatim>\<open>annotation\<close>
  child every \<^verbatim>\<open>documentation\<close> element sets \<open>Doc\<close>.  \<open>ComplexType_all\<close> below is the same
  for \<^verbatim>\<open>all>element\<close>.
\<close>

fun ComplexType_annotation :: "Node list \<Rightarrow> ComplexType \<Rightarrow> ComplexType" where
  "ComplexType_annotation [] v = v"
| "ComplexType_annotation (Elem s cs' # cs) v =
     ComplexType_annotation cs
       (if local s = ''documentation'' then set_ComplexType_Doc (chardata cs') v else v)"
| "ComplexType_annotation (c # cs) v = ComplexType_annotation cs v"

text \<open>
  The decoders of the five recursive structs.  Each \<open>unmarshal_T\<close> takes the value it
  decodes into, the start tag and the children; each \<open>T_children\<close> is the loop over
  the children.  They terminate because every call descends into the children of
  the element at hand.
\<close>

function (sequential) unmarshal_ComplexType ::
      "ComplexType \<Rightarrow> StartElement \<Rightarrow> Node list \<Rightarrow> error + ComplexType"
and ComplexType_children :: "Node list \<Rightarrow> ComplexType \<Rightarrow> error + ComplexType"
and ComplexType_all :: "Node list \<Rightarrow> ComplexType \<Rightarrow> error + ComplexType"
and unmarshal_ComplexContent ::
      "ComplexContent \<Rightarrow> StartElement \<Rightarrow> Node list \<Rightarrow> error + ComplexContent"
and ComplexContent_children :: "Node list \<Rightarrow> ComplexContent \<Rightarrow> error + ComplexContent"
and unmarshal_Extension :: "Extension \<Rightarrow> StartElement \<Rightarrow> Node list \<Rightarrow> error + Extension"
and Extension_children :: "Node list \<Rightarrow> Extension \<Rightarrow> error + Extension"
and unmarshal_Sequence :: "Sequence \<Rightarrow> StartElement \<Rightarrow> Node list \<Rightarrow> error + Sequence"
and Sequence_children :: "Node list \<Rightarrow> Sequence \<Rightarrow> error + Sequence"
and unmarshal_Element :: "Element \<Rightarrow> StartElement \<Rightarrow> Node list \<Rightarrow> error + Element"
and Element_children :: "Node list \<Rightarrow> Element \<Rightarrow> error + Element"
where
  "unmarshal_ComplexType v start cs =
     (case struct_start ''complexType'' set_ComplexType_XMLName ComplexType_attr v start of
        Inl e \<Rightarrow> Inl e
      | Inr v' \<Rightarrow> ComplexType_children cs v')"
| "ComplexType_children [] v = Inr v"
| "ComplexType_children (Elem s cs' # cs) v =
     (case (if local s = ''annotation'' then Inr (ComplexType_annotation cs' v)
            else if local s = ''all'' then ComplexType_all cs' v
            else if local s = ''complexContent''
            then assign (\<lambda>x. set_ComplexType_ComplexContent (Some x) v)
                   (unmarshal_ComplexContent
                      (new_or zero_ComplexContent (ComplexType_ComplexContent v)) s cs')
            else if local s = ''sequence''
            then assign (\<lambda>x. set_ComplexType_Sequence (Some x) v)
                   (unmarshal_Sequence (new_or zero_Sequence (ComplexType_Sequence v)) s cs')
            else Inr v) of
        Inl e \<Rightarrow> Inl e
      | Inr v' \<Rightarrow> ComplexType_children cs v')"
| "ComplexType_children (c # cs) v = ComplexType_children cs v"
| "ComplexType_all [] v = Inr v"
| "ComplexType_all (Elem s cs' # cs) v =
     (case (if local s = ''element''
            then assign (\<lambda>x. set_ComplexType_AllElements (ComplexType_AllElements v @ [x]) v)
                   (unmarshal_Element zero_Element s cs')
            else Inr v) of
        Inl e \<Rightarrow> Inl e
      | Inr v' \<Rightarrow> ComplexType_all cs v')"
| "ComplexType_all (c # cs) v = ComplexType_all cs v"
| "unmarshal_ComplexContent v start cs =
     (case struct_start ''complexContent'' set_ComplexContent_XMLName (\<lambda>a v. Inr v) v start of
        Inl e \<Rightarrow> Inl e
      | Inr v' \<Rightarrow> ComplexContent_children cs v')"
| "ComplexContent_children [] v = Inr v"
| "ComplexContent_children (Elem s cs' # cs) v =
     (case (if local s = ''extension''
            then assign (\<lambda>x. set_ComplexContent_Extension (Some x) v)
                   (unmarshal_Extension
                      (new_or zero_Extension (ComplexContent_Extension v)) s cs')
            else if local s = ''restriction''
            then assign (\<lambda>x. set_ComplexContent_Restriction (Some x) v)
                   (unmarshal_Restriction
                      (new_or zero_Restriction (ComplexContent_Restriction v)) s cs')
            else Inr v) of
        Inl e \<Rightarrow> Inl e
      | Inr v' \<Rightarrow> ComplexContent_children cs v')"
| "ComplexContent_children (c # cs) v = ComplexContent_children cs v"
| "unmarshal_Extension v start cs =
     (case struct_start ''extension'' set_Extension_XMLName Extension_attr v start of
        Inl e \<Rightarrow> Inl e
      | Inr v' \<Rightarrow> Extension_children cs v')"
| "Extension_children [] v = Inr v"
| "Extension_children (Elem s cs' # cs) v =
     (case (if local s = ''sequence''
            then assign (\<lambda>x. set_Extension_Sequence (Some x) v)
                   (unmarshal_Sequence (new_or zero_Sequence (Extension_Sequence v)) s cs')
            else Inr v) of
        Inl e \<Rightarrow> Inl e
      | Inr v' \<Rightarrow> Extension_children cs v')"
| "Extension_children (c # cs) v = Extension_children cs v"
| "unmarshal_Sequence v start cs =
     (case struct_start ''sequence'' set_Sequence_XMLName (\<lambda>a v. Inr v) v start of
        Inl e \<Rightarrow> Inl e
      | Inr v' \<Rightarrow> Sequence_children cs v')"
| "Sequence_children [] v = Inr v"
| "Sequence_children (Elem s cs' # cs) v =
     (case (if local s = ''complexType''
            then assign (\<lambda>x. set_Sequence_ComplexTypes (Sequence_ComplexTypes v @ [x]) v)
                   (unmarshal_ComplexType zero_ComplexType s cs')
            else if local s = ''element''
            then assign (\<lambda>x. set_Sequence_Elements (Sequence_Elements v @ [x]) v)
                   (unmarshal_Element zero_Element s cs')
            else if local s = ''any''
            then assign (\<lambda>x. set_Sequence_Any (Sequence_Any v @ [x]) v)
                   (unmarshal_AnyElement zero_AnyElement s cs')
            else Inr v) of
        Inl e \<Rightarrow> Inl e
      | Inr v' \<Rightarrow> Sequence_children cs v')"
| "Sequence_children (c # cs) v = Sequence_children cs v"
| "unmarshal_Element v start cs =
     (case struct_start ''element'' set_Element_XMLName Element_attr v start of
        Inl e \<Rightarrow> Inl e
      | Inr v' \<Rightarrow> Element_children cs v')"
| "Element_children [] v = Inr v"
| "Element_children (Elem s cs' # cs) v =
     (case (if local s = ''complexType''
            then assign (\<lambda>x. set_Element_ComplexType (Some x) v)
                   (unmarshal_ComplexType
                      (new_or zero_ComplexType (Element_ComplexType v)) s cs')
            else Inr v) of
        Inl e \<Rightarrow> Inl e
      | Inr v' \<Rightarrow> Element_children cs v')"
| "Element_children (c # cs) v = Element_children cs v"
  by pat_completeness auto

text \<open>
  The measure, function by function in the order above: the size of the children
  for a loop, one more for a struct decoder.
\<close>

termination
  by (relation "measure
        (case_sum
          (case_sum
            (case_sum (\<lambda>(v, start, cs). Suc (size_list size cs)) (\<lambda>(cs, v). size_list size cs))
            (case_sum (\<lambda>(cs, v). size_list size cs)
              (case_sum (\<lambda>(v, start, cs). Suc (size_list size cs))
                        (\<lambda>(cs, v). size_list size cs))))
          (case_sum
            (case_sum (\<lambda>(v, start, cs). Suc (size_list size cs))
              (case_sum (\<lambda>(cs, v). size_list size cs)
                        (\<lambda>(v, start, cs). Suc (size_list size cs))))
            (case_sum (\<lambda>(cs, v). size_list size cs)
              (case_sum (\<lambda>(v, start, cs). Suc (size_list size cs))
                        (\<lambda>(cs, v). size_list size cs)))))")
     simp_all

section \<open>The remaining structs, up to Definitions\<close>





















































































section \<open>Vocabulary for the properties\<close>

text \<open>
  \<open>is_local n\<close> selects the attributes with local name \<open>n\<close>, whatever their namespace,
  as both loops of \<open>UnmarshalXML\<close> do.  \<open>derived_Key\<close> is the key the method derives from
  a start tag, empty when there is no \<^verbatim>\<open>ref\<close>; \<open>resolved\<close> is the value it builds.
\<close>

definition is_local :: "string \<Rightarrow> Attr \<Rightarrow> bool" where
  "is_local n attr = (Local (Attr_Name attr) = n)"

definition derived_Key :: "StartElement \<Rightarrow> string" where
  "derived_Key start =
     (case find (is_local ''ref'') (StartElement_Attr start) of
        None \<Rightarrow> []
      | Some r \<Rightarrow> last (Split (Attr_Value r) CHR '':''))"

definition resolved :: "StartElement \<Rightarrow> RestrictionAttr" where
  "resolved start =
     \<lparr>RestrictionAttr_XMLName = StartElement_Name start,
      RestrictionAttr_Ref =
        (case find (is_local ''ref'') (StartElement_Attr start) of
           None \<Rightarrow> [] | Some r \<Rightarrow> Attr_Value r),
      RestrictionAttr_Key = derived_Key start,
      RestrictionAttr_Value =
        (case find (is_local (derived_Key start)) (StartElement_Attr start) of
           None \<Rightarrow> [] | Some v \<Rightarrow> Attr_Value v)\<rparr>"

text \<open>
  \<open>elements_named n cs\<close> are the child elements with local name \<open>n\<close>, in document order.
\<close>

fun elements_named :: "string \<Rightarrow> Node list \<Rightarrow> (StartElement \<times> Node list) list" where
  "elements_named n [] = []"
| "elements_named n (Elem s cs' # cs) =
     (if local s = n then (s, cs') # elements_named n cs else elements_named n cs)"
| "elements_named n (c # cs) = elements_named n cs"

text \<open>What the children of each kind decode to, one by one and in document order.\<close>

definition decoded_ComplexTypes :: "Node list \<Rightarrow> (error + ComplexType) list" where
  "decoded_ComplexTypes cs =
     map (\<lambda>(s, cs'). unmarshal_ComplexType zero_ComplexType s cs') (elements_named ''complexType'' cs)"

definition decoded_Elements :: "Node list \<Rightarrow> (error + Element) list" where
  "decoded_Elements cs =
     map (\<lambda>(s, cs'). unmarshal_Element zero_Element s cs') (elements_named ''element'' cs)"

definition decoded_Any :: "Node list \<Rightarrow> (error + AnyElement) list" where
  "decoded_Any cs =
     map (\<lambda>(s, cs'). unmarshal_AnyElement zero_AnyElement s cs') (elements_named ''any'' cs)"

text \<open>
  Attributes and start tags, for writing inputs down: \<open>attr\<close> has no prefix, \<open>qattr\<close>
  has the space given, as \<^verbatim>\<open>xmlns:ref="urn:x"\<close> has the space \<^verbatim>\<open>xmlns\<close> and the local
  name \<^verbatim>\<open>ref\<close>.
\<close>

definition attr :: "string \<Rightarrow> string \<Rightarrow> Attr" where
  "attr n v = \<lparr>Attr_Name = \<lparr>Space = [], Local = n\<rparr>, Attr_Value = v\<rparr>"

definition qattr :: "string \<Rightarrow> string \<Rightarrow> string \<Rightarrow> Attr" where
  "qattr sp n v = \<lparr>Attr_Name = \<lparr>Space = sp, Local = n\<rparr>, Attr_Value = v\<rparr>"

definition tag :: "string \<Rightarrow> Attr list \<Rightarrow> StartElement" where
  "tag n as = \<lparr>StartElement_Name = \<lparr>Space = [], Local = n\<rparr>, StartElement_Attr = as\<rparr>"







section \<open>Properties of Split and Skip\<close>

lemma Split_nonempty: "Split s sep \<noteq> []"
  by (induction s) auto

lemma Split_index_in_range: "length (Split s sep) - 1 < length (Split s sep)"
  using Split_nonempty [of s sep] by (cases "Split s sep") auto

lemma Split_index_last: "Split s sep ! (length (Split s sep) - Suc 0) = last (Split s sep)"
  by (simp add: last_conv_nth Split_nonempty)

lemma Split_no_sep: "x \<in> set (Split s sep) \<Longrightarrow> sep \<notin> set x"
proof (induction s arbitrary: x)
  case Nil
  then show ?case by simp
next
  case (Cons c s)
  show ?case
  proof (cases "c = sep")
    case True
    with Cons show ?thesis by auto
  next
    case False
    obtain y ys where ys: "Split s sep = y # ys"
      using Split_nonempty [of s sep] by (cases "Split s sep") auto
    with Cons False show ?thesis by auto
  qed
qed

lemma Split_single: "Split s sep = [y] \<Longrightarrow> y = s"
proof (induction s arbitrary: y)
  case Nil
  then show ?case by simp
next
  case (Cons c s)
  obtain z zs where zs: "Split s sep = z # zs"
    using Split_nonempty [of s sep] by (cases "Split s sep") auto
  with Cons show ?case by (auto split: if_splits)
qed

lemma Split_last_suffix: "suffix (last (Split s sep)) s"
proof (induction s)
  case Nil
  then show ?case by simp
next
  case (Cons c s)
  obtain y ys where ys: "Split s sep = y # ys"
    using Split_nonempty [of s sep] by (cases "Split s sep") auto
  show ?case
  proof (cases "c = sep")
    case True
    with Cons ys show ?thesis by (simp add: suffix_Cons)
  next
    case False
    show ?thesis
    proof (cases ys)
      case Nil
      with ys have "y = s" by (simp add: Split_single)
      with Nil ys False show ?thesis by simp
    next
      case (Cons z zs)
      with Cons.IH ys False show ?thesis by (simp add: suffix_Cons)
    qed
  qed
qed

text \<open>Skipping reads a whole subtree and nothing more.\<close>

lemma Skip_loop_tokens:
  "Skip_loop k (tokens n @ d) = Skip_loop k d"
  "Skip_loop k (tokens_list ns @ d) = Skip_loop k d"
  by (induction n and ns arbitrary: k d and k d rule: tokens_tokens_list.induct) auto

lemma Skip_children: "Skip (tokens_list cs @ EndElementT n # d) = (None, d)"
  by (simp add: Skip_def Skip_loop_tokens)

section \<open>What UnmarshalXML computes\<close>

lemma ref_loop_find:
  "ref_loop attrs a =
     (case find (is_local ''ref'') attrs of
        None \<Rightarrow> a
      | Some r \<Rightarrow> a\<lparr>RestrictionAttr_Ref := Attr_Value r,
                     RestrictionAttr_Key := last (Split (Attr_Value r) CHR '':'')\<rparr>)"
  by (induction attrs) (simp_all add: is_local_def Let_def Split_index_last)

lemma value_loop_find:
  "value_loop attrs a =
     (case find (is_local (RestrictionAttr_Key a)) attrs of
        None \<Rightarrow> a
      | Some v \<Rightarrow> a\<lparr>RestrictionAttr_Value := Attr_Value v\<rparr>)"
  by (induction attrs) (simp_all add: is_local_def)

lemma ref_loop_start:
  "ref_loop (StartElement_Attr start)
     (zero_RestrictionAttr\<lparr>RestrictionAttr_XMLName := StartElement_Name start\<rparr>) =
   (resolved start)\<lparr>RestrictionAttr_Value := []\<rparr>"
  by (cases "find (is_local ''ref'') (StartElement_Attr start)")
     (simp_all add: ref_loop_find derived_Key_def resolved_def zero_RestrictionAttr_def)

lemma value_loop_start:
  "value_loop (StartElement_Attr start) ((resolved start)\<lparr>RestrictionAttr_Value := []\<rparr>) =
   resolved start"
  by (cases "find (is_local (derived_Key start)) (StartElement_Attr start)")
     (simp_all add: value_loop_find resolved_def)

lemma resolved_Key: "RestrictionAttr_Key (resolved start) = derived_Key start"
  by (simp add: resolved_def)

lemma UnmarshalXML_error:
  "derived_Key start = [] \<Longrightarrow>
   UnmarshalXML a0 d start =
     (Some (Errorf ''No ref cound''), (resolved start)\<lparr>RestrictionAttr_Value := []\<rparr>, d)"
  by (simp add: UnmarshalXML_def Let_def ref_loop_start resolved_Key)

lemma UnmarshalXML_run:
  "derived_Key start \<noteq> [] \<Longrightarrow>
   UnmarshalXML a0 d start = (fst (Skip d), resolved start, snd (Skip d))"
  by (simp add: UnmarshalXML_def Let_def ref_loop_start value_loop_start resolved_Key
      split: prod.splits)

lemma UnmarshalXML_well_formed:
  "derived_Key start \<noteq> [] \<Longrightarrow>
   UnmarshalXML a0 (tokens_list cs @ EndElementT n # d) start = (None, resolved start, d)"
  by (simp add: UnmarshalXML_run Skip_children)

text \<open>
  The method starts from \<^verbatim>\<open>RestrictionAttr{}\<close>, so what the receiver held before does
  not reach the result.
\<close>

lemma UnmarshalXML_receiver: "UnmarshalXML a d start = UnmarshalXML b d start"
  by (simp add: UnmarshalXML_def)

lemma unmarshalInterface_eq:
  "unmarshalInterface val start cs =
     (if derived_Key start = [] then Inl (Errorf ''No ref cound'') else Inr (resolved start))"
  by (simp add: unmarshalInterface_def UnmarshalXML_error UnmarshalXML_well_formed)

lemma derived_Key_SomeD:
  "derived_Key start \<noteq> [] \<Longrightarrow>
   \<exists>r. find (is_local ''ref'') (StartElement_Attr start) = Some r \<and>
       derived_Key start = last (Split (Attr_Value r) CHR '':'')"
  by (cases "find (is_local ''ref'') (StartElement_Attr start)") (simp_all add: derived_Key_def)

section \<open>The resolver on one element\<close>

text \<open>
  C2, as amended.  Both loops of the method compare local names only and leave at
  the first match, so the claim holds of the first attribute of each name.
  Take an \<^verbatim>\<open>attribute\<close> element whose first attribute with local name \<^verbatim>\<open>ref\<close> is
  \<open>r\<close>, let \<open>key\<close> be the last piece of the value of \<open>r\<close> split at \<open>:\<close>, not empty, and let
  \<open>v\<close> be the first attribute with local name \<open>key\<close>.  Then, on a well-formed rest of
  the element, \<open>UnmarshalXML\<close> returns no error and the receiver holds \<open>Ref\<close> = the value
  of \<open>r\<close>, \<open>Key\<close> = \<open>key\<close> and \<open>Value\<close> = the value of \<open>v\<close>.  For \<^verbatim>\<open>ref="tns:arrayType"\<close> the key is
  \<^verbatim>\<open>arrayType\<close>, so with \<^verbatim>\<open>arrayType="xsd:string[]"\<close> the result is \<open>Key\<close> = \<^verbatim>\<open>arrayType\<close> and
  \<open>Value\<close> = \<^verbatim>\<open>xsd:string[]\<close>, as the witness computes.
\<close>

theorem UnmarshalXML_resolves:
  assumes "find (is_local ''ref'') (StartElement_Attr start) = Some r"
    and "last (Split (Attr_Value r) CHR '':'') = key"
    and "key \<noteq> []"
    and "find (is_local key) (StartElement_Attr start) = Some v"
  shows "UnmarshalXML a0 (tokens_list cs @ EndElementT n # d) start =
           (None,
            \<lparr>RestrictionAttr_XMLName = StartElement_Name start,
             RestrictionAttr_Ref = Attr_Value r,
             RestrictionAttr_Key = key,
             RestrictionAttr_Value = Attr_Value v\<rparr>,
            d)
         \<and> (Attr_Value r = ''tns:arrayType'' \<longrightarrow> key = ''arrayType'')"
proof -
  from assms have k: "derived_Key start = key"
    by (simp add: derived_Key_def)
  with assms have "resolved start =
      \<lparr>RestrictionAttr_XMLName = StartElement_Name start, RestrictionAttr_Ref = Attr_Value r,
       RestrictionAttr_Key = key, RestrictionAttr_Value = Attr_Value v\<rparr>"
    by (simp add: resolved_def)
  moreover have "Attr_Value r = ''tns:arrayType'' \<longrightarrow> key = ''arrayType''"
    using assms(2) by auto
  ultimately show ?thesis
    using k assms(3) by (simp add: UnmarshalXML_well_formed)
qed

theorem UnmarshalXML_resolves_witness:
  "find (is_local ''ref'')
     (StartElement_Attr (tag ''attribute''
        [attr ''ref'' ''tns:arrayType'', attr ''arrayType'' ''xsd:string[]''])) =
     Some (attr ''ref'' ''tns:arrayType'')
   \<and> last (Split (Attr_Value (attr ''ref'' ''tns:arrayType'')) CHR '':'') = ''arrayType''
   \<and> ''arrayType'' \<noteq> []
   \<and> find (is_local ''arrayType'')
     (StartElement_Attr (tag ''attribute''
        [attr ''ref'' ''tns:arrayType'', attr ''arrayType'' ''xsd:string[]''])) =
     Some (attr ''arrayType'' ''xsd:string[]'')
   \<and> UnmarshalXML zero_RestrictionAttr
       (tokens_list [CharDataN ''x''] @ EndElementT \<lparr>Space = [], Local = ''attribute''\<rparr> # [])
       (tag ''attribute'' [attr ''ref'' ''tns:arrayType'', attr ''arrayType'' ''xsd:string[]'']) =
     (None,
      \<lparr>RestrictionAttr_XMLName = \<lparr>Space = [], Local = ''attribute''\<rparr>,
       RestrictionAttr_Ref = ''tns:arrayType'',
       RestrictionAttr_Key = ''arrayType'',
       RestrictionAttr_Value = ''xsd:string[]''\<rparr>,
      [])"
proof -
  let ?start = "tag ''attribute'' [attr ''ref'' ''tns:arrayType'', attr ''arrayType'' ''xsd:string[]'']"
  have h1: "find (is_local ''ref'') (StartElement_Attr ?start) = Some (attr ''ref'' ''tns:arrayType'')"
    by (simp add: tag_def attr_def is_local_def)
  have h2: "last (Split (Attr_Value (attr ''ref'' ''tns:arrayType'')) CHR '':'') = ''arrayType''"
    by (simp add: attr_def)
  have h3: "''arrayType'' \<noteq> []" by simp
  have h4: "find (is_local ''arrayType'') (StartElement_Attr ?start) =
              Some (attr ''arrayType'' ''xsd:string[]'')"
    by (simp add: tag_def attr_def is_local_def)
  show ?thesis
    using h1 h2 h4
      UnmarshalXML_resolves [OF h1 h2 h3 h4, of zero_RestrictionAttr "[CharDataN ''x'']"
        "\<lparr>Space = [], Local = ''attribute''\<rparr>" "[]"]
    by (simp add: tag_def attr_def)
qed

text \<open>
  C2 as stated fails: the namespace declaration \<^verbatim>\<open>xmlns:ref="urn:x:y"\<close> is an attribute
  with local name \<^verbatim>\<open>ref\<close>.  In front of \<^verbatim>\<open>ref="tns:arrayType"\<close> and
  \<^verbatim>\<open>arrayType="xsd:string[]"\<close> it is the one the method takes: \<open>Key\<close> is \<^verbatim>\<open>y\<close> and \<open>Value\<close> is
  empty.
\<close>

theorem UnmarshalXML_resolves_counterexample:
  "attr ''ref'' ''tns:arrayType''
     \<in> set (StartElement_Attr (tag ''attribute''
         [qattr ''xmlns'' ''ref'' ''urn:x:y'', attr ''ref'' ''tns:arrayType'',
          attr ''arrayType'' ''xsd:string[]'']))
   \<and> attr ''arrayType'' ''xsd:string[]''
     \<in> set (StartElement_Attr (tag ''attribute''
         [qattr ''xmlns'' ''ref'' ''urn:x:y'', attr ''ref'' ''tns:arrayType'',
          attr ''arrayType'' ''xsd:string[]'']))
   \<and> UnmarshalXML zero_RestrictionAttr [EndElementT \<lparr>Space = [], Local = ''attribute''\<rparr>]
       (tag ''attribute''
         [qattr ''xmlns'' ''ref'' ''urn:x:y'', attr ''ref'' ''tns:arrayType'',
          attr ''arrayType'' ''xsd:string[]'']) =
     (None,
      \<lparr>RestrictionAttr_XMLName = \<lparr>Space = [], Local = ''attribute''\<rparr>,
       RestrictionAttr_Ref = ''urn:x:y'',
       RestrictionAttr_Key = ''y'',
       RestrictionAttr_Value = []\<rparr>,
      [])"
  by (simp add: UnmarshalXML_def Skip_def zero_RestrictionAttr_def tag_def attr_def qattr_def
      is_local_def Let_def)

text \<open>
  C4, as amended.  Let \<open>r\<close> be the first attribute with local name \<^verbatim>\<open>ref\<close> and \<open>key\<close>, not
  empty, the last piece of its value.  When no attribute of the element has the key
  as its local name (the second loop finds none), \<open>UnmarshalXML\<close> still returns no
  error, with \<open>Key\<close> set and \<open>Value\<close> empty: when that first attribute is
  \<^verbatim>\<open>ref="tns:arrayType"\<close> and there is no \<^verbatim>\<open>arrayType\<close> attribute, \<open>Key\<close> = \<^verbatim>\<open>arrayType\<close> and
  \<open>Value\<close> = \<^verbatim>\<open>""\<close>.
\<close>

theorem UnmarshalXML_missing_value:
  assumes "find (is_local ''ref'') (StartElement_Attr start) = Some r"
    and "last (Split (Attr_Value r) CHR '':'') = key"
    and "key \<noteq> []"
    and "find (is_local key) (StartElement_Attr start) = None"
  shows "UnmarshalXML a0 (tokens_list cs @ EndElementT n # d) start =
           (None,
            \<lparr>RestrictionAttr_XMLName = StartElement_Name start,
             RestrictionAttr_Ref = Attr_Value r,
             RestrictionAttr_Key = key,
             RestrictionAttr_Value = []\<rparr>,
            d)"
proof -
  from assms have k: "derived_Key start = key"
    by (simp add: derived_Key_def)
  from k assms have "resolved start =
      \<lparr>RestrictionAttr_XMLName = StartElement_Name start, RestrictionAttr_Ref = Attr_Value r,
       RestrictionAttr_Key = key, RestrictionAttr_Value = []\<rparr>"
    by (simp add: resolved_def)
  then show ?thesis
    using k assms(3) by (simp add: UnmarshalXML_well_formed)
qed

theorem UnmarshalXML_missing_value_witness:
  "find (is_local ''ref'') (StartElement_Attr (tag ''attribute'' [attr ''ref'' ''tns:arrayType''])) =
     Some (attr ''ref'' ''tns:arrayType'')
   \<and> last (Split (Attr_Value (attr ''ref'' ''tns:arrayType'')) CHR '':'') = ''arrayType''
   \<and> ''arrayType'' \<noteq> []
   \<and> find (is_local ''arrayType'')
       (StartElement_Attr (tag ''attribute'' [attr ''ref'' ''tns:arrayType''])) = None
   \<and> UnmarshalXML zero_RestrictionAttr
       (tokens_list [] @ EndElementT \<lparr>Space = [], Local = ''attribute''\<rparr> # [])
       (tag ''attribute'' [attr ''ref'' ''tns:arrayType'']) =
     (None,
      \<lparr>RestrictionAttr_XMLName = \<lparr>Space = [], Local = ''attribute''\<rparr>,
       RestrictionAttr_Ref = ''tns:arrayType'',
       RestrictionAttr_Key = ''arrayType'',
       RestrictionAttr_Value = []\<rparr>,
      [])"
proof -
  let ?start = "tag ''attribute'' [attr ''ref'' ''tns:arrayType'']"
  have h1: "find (is_local ''ref'') (StartElement_Attr ?start) = Some (attr ''ref'' ''tns:arrayType'')"
    by (simp add: tag_def attr_def is_local_def)
  have h2: "last (Split (Attr_Value (attr ''ref'' ''tns:arrayType'')) CHR '':'') = ''arrayType''"
    by (simp add: attr_def)
  have h3: "''arrayType'' \<noteq> []" by simp
  have h4: "find (is_local ''arrayType'') (StartElement_Attr ?start) = None"
    by (simp add: tag_def attr_def is_local_def)
  show ?thesis
    using h1 h2 h4
      UnmarshalXML_missing_value [OF h1 h2 h3 h4, of zero_RestrictionAttr "[]"
        "\<lparr>Space = [], Local = ''attribute''\<rparr>" "[]"]
    by (simp add: tag_def attr_def)
qed

text \<open>
  C4 as stated fails: with \<^verbatim>\<open>xmlns:ref="urn:x:"\<close> in front, an element that carries
  \<^verbatim>\<open>ref="tns:arrayType"\<close> and no \<^verbatim>\<open>arrayType\<close> attribute gets the error, the value of the
  namespace declaration ending in the separator.
\<close>

theorem UnmarshalXML_missing_value_counterexample:
  "attr ''ref'' ''tns:arrayType''
     \<in> set (StartElement_Attr (tag ''attribute''
         [qattr ''xmlns'' ''ref'' ''urn:x:'', attr ''ref'' ''tns:arrayType'']))
   \<and> find (is_local ''arrayType'')
       (StartElement_Attr (tag ''attribute''
         [qattr ''xmlns'' ''ref'' ''urn:x:'', attr ''ref'' ''tns:arrayType''])) = None
   \<and> UnmarshalXML zero_RestrictionAttr [EndElementT \<lparr>Space = [], Local = ''attribute''\<rparr>]
       (tag ''attribute'' [qattr ''xmlns'' ''ref'' ''urn:x:'', attr ''ref'' ''tns:arrayType'']) =
     (Some (Errorf ''No ref cound''),
      \<lparr>RestrictionAttr_XMLName = \<lparr>Space = [], Local = ''attribute''\<rparr>,
       RestrictionAttr_Ref = ''urn:x:'',
       RestrictionAttr_Key = [],
       RestrictionAttr_Value = []\<rparr>,
      [EndElementT \<lparr>Space = [], Local = ''attribute''\<rparr>])"
  by (simp add: UnmarshalXML_def Skip_def zero_RestrictionAttr_def tag_def attr_def qattr_def
      is_local_def Let_def)

text \<open>
  C5.  When the method derives a key it leaves the decoder just behind the end tag of
  the element: the children are read and discarded, whatever the second loop found
  (nothing is assumed about it).  For the structural decoder the element then decodes
  to the resolved value, the same value as for the element without children, so
  nothing of the children is decoded.
\<close>

theorem UnmarshalXML_consumes_subtree:
  assumes "derived_Key start \<noteq> []"
  shows "fst (UnmarshalXML a0 (tokens_list cs @ EndElementT n # d) start) = None
         \<and> snd (snd (UnmarshalXML a0 (tokens_list cs @ EndElementT n # d) start)) = d
         \<and> unmarshalInterface a0 start cs = Inr (resolved start)
         \<and> unmarshalInterface a0 start cs = unmarshalInterface a0 start []"
  using assms by (simp add: UnmarshalXML_well_formed unmarshalInterface_eq)

theorem UnmarshalXML_consumes_subtree_witness:
  "derived_Key (tag ''attribute'' [attr ''ref'' ''tns:arrayType'']) \<noteq> []
   \<and> fst (UnmarshalXML zero_RestrictionAttr
        (tokens_list [Elem (tag ''annotation'' []) [CharDataN ''text'']]
           @ EndElementT \<lparr>Space = [], Local = ''attribute''\<rparr> # [CharData ''after''])
        (tag ''attribute'' [attr ''ref'' ''tns:arrayType''])) = None
   \<and> snd (snd (UnmarshalXML zero_RestrictionAttr
        (tokens_list [Elem (tag ''annotation'' []) [CharDataN ''text'']]
           @ EndElementT \<lparr>Space = [], Local = ''attribute''\<rparr> # [CharData ''after''])
        (tag ''attribute'' [attr ''ref'' ''tns:arrayType'']))) = [CharData ''after'']
   \<and> unmarshalInterface zero_RestrictionAttr (tag ''attribute'' [attr ''ref'' ''tns:arrayType''])
        [Elem (tag ''annotation'' []) [CharDataN ''text'']] =
       unmarshalInterface zero_RestrictionAttr (tag ''attribute'' [attr ''ref'' ''tns:arrayType'']) []"
proof -
  have h: "derived_Key (tag ''attribute'' [attr ''ref'' ''tns:arrayType'']) \<noteq> []"
    by (simp add: derived_Key_def tag_def attr_def is_local_def)
  show ?thesis
    using h UnmarshalXML_consumes_subtree [OF h, of zero_RestrictionAttr
        "[Elem (tag ''annotation'' []) [CharDataN ''text'']]"
        "\<lparr>Space = [], Local = ''attribute''\<rparr>" "[CharData ''after'']"]
    by blast
qed

text \<open>
  C9, as amended.  When an attribute with local name \<^verbatim>\<open>ref\<close> is present but the last
  piece of the value of the first such attribute is empty, as for \<^verbatim>\<open>ref=""\<close> and
  \<^verbatim>\<open>ref="tns:"\<close>, the method returns the error of the missing \<^verbatim>\<open>ref\<close> and leaves the
  decoder where it was; every element without a \<^verbatim>\<open>ref\<close> attribute gets the same error.
\<close>

theorem UnmarshalXML_empty_segment:
  assumes "find (is_local ''ref'') (StartElement_Attr start) = Some r"
    and "last (Split (Attr_Value r) CHR '':'') = []"
  shows "fst (UnmarshalXML a0 d start) = Some (Errorf ''No ref cound'')
         \<and> snd (snd (UnmarshalXML a0 d start)) = d
         \<and> (\<forall>start'. find (is_local ''ref'') (StartElement_Attr start') = None \<longrightarrow>
               fst (UnmarshalXML a0 d start') = fst (UnmarshalXML a0 d start))"
proof -
  from assms have "derived_Key start = []"
    by (simp add: derived_Key_def)
  then have "UnmarshalXML a0 d start =
      (Some (Errorf ''No ref cound''), (resolved start)\<lparr>RestrictionAttr_Value := []\<rparr>, d)"
    by (rule UnmarshalXML_error)
  moreover have "fst (UnmarshalXML a0 d start') = Some (Errorf ''No ref cound'')"
    if "find (is_local ''ref'') (StartElement_Attr start') = None" for start'
  proof -
    from that have "derived_Key start' = []" by (simp add: derived_Key_def)
    then show ?thesis by (simp add: UnmarshalXML_error)
  qed
  ultimately show ?thesis by simp
qed

theorem UnmarshalXML_empty_segment_witness:
  "find (is_local ''ref'') (StartElement_Attr (tag ''attribute'' [attr ''ref'' ''tns:''])) =
     Some (attr ''ref'' ''tns:'')
   \<and> last (Split (Attr_Value (attr ''ref'' ''tns:'')) CHR '':'') = []
   \<and> find (is_local ''ref'') (StartElement_Attr (tag ''attribute'' [attr ''ref'' []])) =
     Some (attr ''ref'' [])
   \<and> last (Split (Attr_Value (attr ''ref'' [])) CHR '':'') = []
   \<and> fst (UnmarshalXML zero_RestrictionAttr [] (tag ''attribute'' [attr ''ref'' ''tns:''])) =
       Some (Errorf ''No ref cound'')
   \<and> fst (UnmarshalXML zero_RestrictionAttr [] (tag ''attribute'' [attr ''ref'' []])) =
       Some (Errorf ''No ref cound'')
   \<and> fst (UnmarshalXML zero_RestrictionAttr [] (tag ''attribute'' [])) =
       fst (UnmarshalXML zero_RestrictionAttr [] (tag ''attribute'' [attr ''ref'' ''tns:'']))"
proof -
  have a1: "find (is_local ''ref'') (StartElement_Attr (tag ''attribute'' [attr ''ref'' ''tns:''])) =
      Some (attr ''ref'' ''tns:'')"
    by (simp add: tag_def attr_def is_local_def)
  have a2: "last (Split (Attr_Value (attr ''ref'' ''tns:'')) CHR '':'') = []"
    by (simp add: attr_def)
  have b1: "find (is_local ''ref'') (StartElement_Attr (tag ''attribute'' [attr ''ref'' []])) =
      Some (attr ''ref'' [])"
    by (simp add: tag_def attr_def is_local_def)
  have b2: "last (Split (Attr_Value (attr ''ref'' [])) CHR '':'') = []"
    by (simp add: attr_def)
  have c: "find (is_local ''ref'') (StartElement_Attr (tag ''attribute'' [])) = None"
    by (simp add: tag_def)
  show ?thesis
    using a1 a2 b1 b2 c
      UnmarshalXML_empty_segment [OF a1 a2, of zero_RestrictionAttr "[]"]
      UnmarshalXML_empty_segment [OF b1 b2, of zero_RestrictionAttr "[]"]
    by simp
qed

text \<open>
  C9 as stated fails: with \<^verbatim>\<open>xmlns:ref="urn:x:y"\<close> in front, the element with \<^verbatim>\<open>ref="tns:"\<close>
  gets no error; the key is \<^verbatim>\<open>y\<close>, from the namespace declaration.
\<close>

theorem UnmarshalXML_empty_segment_counterexample:
  "attr ''ref'' ''tns:''
     \<in> set (StartElement_Attr (tag ''attribute''
         [qattr ''xmlns'' ''ref'' ''urn:x:y'', attr ''ref'' ''tns:'']))
   \<and> last (Split (Attr_Value (attr ''ref'' ''tns:'')) CHR '':'') = []
   \<and> UnmarshalXML zero_RestrictionAttr [EndElementT \<lparr>Space = [], Local = ''attribute''\<rparr>]
       (tag ''attribute'' [qattr ''xmlns'' ''ref'' ''urn:x:y'', attr ''ref'' ''tns:'']) =
     (None,
      \<lparr>RestrictionAttr_XMLName = \<lparr>Space = [], Local = ''attribute''\<rparr>,
       RestrictionAttr_Ref = ''urn:x:y'',
       RestrictionAttr_Key = ''y'',
       RestrictionAttr_Value = []\<rparr>,
      [])"
  by (simp add: UnmarshalXML_def Skip_def zero_RestrictionAttr_def tag_def attr_def qattr_def
      is_local_def Let_def)

text \<open>
  C10.  Whenever the method returns without error, \<open>Key\<close> is not empty, holds no \<open>:\<close>, is
  the last piece of \<open>Ref\<close> split at \<open>:\<close> and therefore a suffix of \<open>Ref\<close>, and \<open>Ref\<close> is the
  value of the first attribute with local name \<^verbatim>\<open>ref\<close>.
\<close>

theorem UnmarshalXML_success_invariant:
  assumes "UnmarshalXML a0 d start = (None, a, d')"
  shows "RestrictionAttr_Key a \<noteq> []
         \<and> CHR '':'' \<notin> set (RestrictionAttr_Key a)
         \<and> RestrictionAttr_Key a = last (Split (RestrictionAttr_Ref a) CHR '':'')
         \<and> suffix (RestrictionAttr_Key a) (RestrictionAttr_Ref a)
         \<and> (\<exists>r. find (is_local ''ref'') (StartElement_Attr start) = Some r
                \<and> RestrictionAttr_Ref a = Attr_Value r)"
proof -
  have key: "derived_Key start \<noteq> []"
  proof
    assume "derived_Key start = []"
    then have "fst (UnmarshalXML a0 d start) = Some (Errorf ''No ref cound'')"
      by (simp add: UnmarshalXML_error)
    with assms show False by simp
  qed
  with assms have a: "a = resolved start"
    by (simp add: UnmarshalXML_run)
  from key obtain r where r: "find (is_local ''ref'') (StartElement_Attr start) = Some r"
    and k: "derived_Key start = last (Split (Attr_Value r) CHR '':'')"
    using derived_Key_SomeD by blast
  have ref: "RestrictionAttr_Ref a = Attr_Value r"
    using a r by (simp add: resolved_def)
  have kk: "RestrictionAttr_Key a = last (Split (Attr_Value r) CHR '':'')"
    using a k by (simp add: resolved_def)
  have "last (Split (Attr_Value r) CHR '':'') \<in> set (Split (Attr_Value r) CHR '':'')"
    by (simp add: Split_nonempty)
  then have nocolon: "CHR '':'' \<notin> set (last (Split (Attr_Value r) CHR '':''))"
    by (rule Split_no_sep)
  show ?thesis
    using key a r ref kk nocolon Split_last_suffix [of "Attr_Value r" "CHR '':''"]
    by (simp add: resolved_Key)
qed

theorem UnmarshalXML_success_invariant_witness:
  "UnmarshalXML zero_RestrictionAttr [EndElementT \<lparr>Space = [], Local = ''attribute''\<rparr>]
     (tag ''attribute'' [attr ''ref'' ''tns:arrayType'', attr ''arrayType'' ''xsd:string[]'']) =
     (None,
      \<lparr>RestrictionAttr_XMLName = \<lparr>Space = [], Local = ''attribute''\<rparr>,
       RestrictionAttr_Ref = ''tns:arrayType'',
       RestrictionAttr_Key = ''arrayType'',
       RestrictionAttr_Value = ''xsd:string[]''\<rparr>,
      [])
   \<and> ''arrayType'' \<noteq> []
   \<and> CHR '':'' \<notin> set ''arrayType''
   \<and> ''arrayType'' = last (Split ''tns:arrayType'' CHR '':'')
   \<and> suffix ''arrayType'' ''tns:arrayType''"
proof -
  have h: "UnmarshalXML zero_RestrictionAttr [EndElementT \<lparr>Space = [], Local = ''attribute''\<rparr>]
     (tag ''attribute'' [attr ''ref'' ''tns:arrayType'', attr ''arrayType'' ''xsd:string[]'']) =
     (None,
      \<lparr>RestrictionAttr_XMLName = \<lparr>Space = [], Local = ''attribute''\<rparr>,
       RestrictionAttr_Ref = ''tns:arrayType'',
       RestrictionAttr_Key = ''arrayType'',
       RestrictionAttr_Value = ''xsd:string[]''\<rparr>,
      [])"
    by (simp add: UnmarshalXML_def zero_RestrictionAttr_def tag_def attr_def Skip_def Let_def)
  show ?thesis
    using h UnmarshalXML_success_invariant [OF h] by simp
qed


section \<open>Properties of the struct decoders\<close>

text \<open>The equations of the five \<open>unmarshal\<close> functions are unfolded by name only.\<close>

declare unmarshal_ComplexType.simps [simp del] unmarshal_ComplexContent.simps [simp del]
  unmarshal_Extension.simps [simp del] unmarshal_Sequence.simps [simp del]
  unmarshal_Element.simps [simp del]

lemma find_append:
  "find P (xs @ ys) = (case find P xs of None \<Rightarrow> find P ys | Some x \<Rightarrow> Some x)"
  by (induction xs) auto

lemma Element_attr_Max:
  "Element_attr a v = Inr v' \<Longrightarrow>
   Element_Max v' = (if is_local ''maxOccurs'' a then Attr_Value a else Element_Max v)"
  by (cases v) (auto simp: assign_def is_local_def split: if_splits sum.splits)

lemma foldM_Element_attr_Max:
  "foldM Element_attr attrs v = Inr e \<Longrightarrow>
   Element_Max e =
     (case find (is_local ''maxOccurs'') (rev attrs) of
        None \<Rightarrow> Element_Max v
      | Some a \<Rightarrow> Attr_Value a)"
proof (induction attrs arbitrary: v)
  case Nil
  then show ?case by simp
next
  case (Cons a attrs)
  from Cons.prems obtain v' where a: "Element_attr a v = Inr v'"
    and rest: "foldM Element_attr attrs v' = Inr e"
    by (auto split: sum.splits)
  from Cons.IH [OF rest] Element_attr_Max [OF a] show ?case
    by (auto simp: find_append split: option.splits)
qed

lemma set_Element_XMLName_Max: "Element_Max (set_Element_XMLName n v) = Element_Max v"
  by (cases v) simp

lemma set_Element_ComplexType_Max: "Element_Max (set_Element_ComplexType x v) = Element_Max v"
  by (cases v) simp

lemma Element_children_Max:
  "Element_children cs v = Inr e \<Longrightarrow> Element_Max e = Element_Max v"
proof (induction cs arbitrary: v)
  case Nil
  then show ?case by simp
next
  case (Cons c cs)
  show ?case
  proof (cases c)
    case (Elem s cs')
    with Cons.prems show ?thesis
      by (auto simp: assign_def set_Element_ComplexType_Max split: sum.splits if_splits
          dest!: Cons.IH)
  qed (use Cons in auto)
qed

text \<open>
  C6, as amended.  Whenever an \<^verbatim>\<open>element\<close> decodes, its \<open>Max\<close> is the value, as it stands in
  the start tag, of the last attribute whose local name is \<^verbatim>\<open>maxOccurs\<close>, whatever its
  prefix (the \<open>Max\<close> of the destination when there is none): the field is a string and
  the value is copied, not parsed.  When it is the only attribute of that local name,
  \<^verbatim>\<open>maxOccurs="unbounded"\<close> gives \<^verbatim>\<open>unbounded\<close> and \<^verbatim>\<open>maxOccurs="5"\<close> gives \<^verbatim>\<open>5\<close>, as the
  witness computes.
\<close>

theorem Element_Max_verbatim:
  assumes "unmarshal_Element v start cs = Inr e"
  shows "Element_Max e =
           (case find (is_local ''maxOccurs'') (rev (StartElement_Attr start)) of
              None \<Rightarrow> Element_Max v
            | Some a \<Rightarrow> Attr_Value a)"
proof -
  from assms obtain v' where
    attrs: "foldM Element_attr (StartElement_Attr start)
              (set_Element_XMLName (StartElement_Name start) v) = Inr v'"
    and kids: "Element_children cs v' = Inr e"
    by (auto simp: unmarshal_Element.simps struct_start_def split: sum.splits if_splits)
  from Element_children_Max [OF kids] foldM_Element_attr_Max [OF attrs]
  show ?thesis by (simp add: set_Element_XMLName_Max split: option.splits)
qed

text \<open>The definitions that evaluate a decoder on a concrete input.\<close>

lemmas eval_simps =
  unmarshal_ComplexType.simps unmarshal_ComplexContent.simps unmarshal_Extension.simps
  unmarshal_Sequence.simps unmarshal_Element.simps unmarshal_AnyElement_def
  unmarshal_Restriction_def unmarshal_Enum_def unmarshalInterface_def UnmarshalXML_def
  struct_start_def assign_def new_or_def local_def tag_def attr_def Skip_def Let_def
  zero_Name_def zero_RestrictionAttr_def zero_Enum_def zero_Restriction_def
  zero_AnyElement_def zero_ComplexType_def zero_ComplexContent_def zero_Extension_def
  zero_Sequence_def zero_Element_def AnyElement_attr_def Restriction_attr_def Enum_attr_def
  copyValue_int_def copyValue_bool_def

theorem Element_Max_verbatim_witness:
  "unmarshal_Element zero_Element
     (tag ''element'' [attr ''name'' ''item'', attr ''maxOccurs'' ''unbounded'']) [] =
     Inr (Element \<lparr>Space = [], Local = ''element''\<rparr> ''item'' [] [] 0 ''unbounded'' False None)
   \<and> Element_Max
        (Element \<lparr>Space = [], Local = ''element''\<rparr> ''item'' [] [] 0 ''unbounded'' False None) =
       ''unbounded''
   \<and> unmarshal_Element zero_Element
     (tag ''element'' [attr ''maxOccurs'' ''5'', attr ''name'' ''item'']) [] =
     Inr (Element \<lparr>Space = [], Local = ''element''\<rparr> ''item'' [] [] 0 ''5'' False None)
   \<and> Element_Max (Element \<lparr>Space = [], Local = ''element''\<rparr> ''item'' [] [] 0 ''5'' False None) =
       ''5''"
proof -
  have h1: "unmarshal_Element zero_Element
     (tag ''element'' [attr ''name'' ''item'', attr ''maxOccurs'' ''unbounded'']) [] =
     Inr (Element \<lparr>Space = [], Local = ''element''\<rparr> ''item'' [] [] 0 ''unbounded'' False None)"
    by (simp add: eval_simps)
  have h2: "unmarshal_Element zero_Element
     (tag ''element'' [attr ''maxOccurs'' ''5'', attr ''name'' ''item'']) [] =
     Inr (Element \<lparr>Space = [], Local = ''element''\<rparr> ''item'' [] [] 0 ''5'' False None)"
    by (simp add: eval_simps)
  show ?thesis
    using h1 h2 Element_Max_verbatim [OF h1] Element_Max_verbatim [OF h2]
    by (simp add: tag_def attr_def is_local_def zero_Element_def)
qed

text \<open>
  C6 as stated fails: on an \<^verbatim>\<open>element\<close> with \<^verbatim>\<open>maxOccurs="5"\<close> followed by the namespace
  declaration \<^verbatim>\<open>xmlns:maxOccurs="urn:m"\<close>, \<open>Max\<close> is \<^verbatim>\<open>urn:m\<close> and not \<^verbatim>\<open>5\<close>.
\<close>

theorem Element_Max_verbatim_counterexample:
  "attr ''maxOccurs'' ''5''
     \<in> set (StartElement_Attr (tag ''element''
         [attr ''maxOccurs'' ''5'', qattr ''xmlns'' ''maxOccurs'' ''urn:m'']))
   \<and> unmarshal_Element zero_Element
       (tag ''element'' [attr ''maxOccurs'' ''5'', qattr ''xmlns'' ''maxOccurs'' ''urn:m'']) [] =
     Inr (Element \<lparr>Space = [], Local = ''element''\<rparr> [] [] [] 0 ''urn:m'' False None)
   \<and> Element_Max
        (Element \<lparr>Space = [], Local = ''element''\<rparr> [] [] [] 0 ''urn:m'' False None) \<noteq> ''5''"
  by (simp add: eval_simps qattr_def)

section \<open>Unrecognised children\<close>

lemma ComplexType_children_skip:
  assumes "local s \<notin> {''annotation'', ''all'', ''complexContent'', ''sequence''}"
  shows "ComplexType_children (cs1 @ Elem s cs' # cs2) v = ComplexType_children (cs1 @ cs2) v"
proof (induction cs1 arbitrary: v)
  case Nil
  from assms show ?case by simp
next
  case (Cons c cs1)
  show ?case
    by (cases c) (simp_all add: Cons.IH split: sum.splits)
qed

text \<open>
  C7.  A child element of a \<^verbatim>\<open>complexType\<close> whose local name is none of \<^verbatim>\<open>annotation\<close>,
  \<^verbatim>\<open>all\<close>, \<^verbatim>\<open>complexContent\<close> and \<^verbatim>\<open>sequence\<close> matches no field: the \<^verbatim>\<open>complexType\<close>
  decodes to what it decodes to without that child, whatever the child contains.
  So the child never makes the decoding fail, and nothing of it is in the result.
  In the witness the skipped child holds an \<^verbatim>\<open>element\<close> that would not decode.
\<close>

theorem ComplexType_skips_unrecognized:
  assumes "local s \<notin> {''annotation'', ''all'', ''complexContent'', ''sequence''}"
  shows "unmarshal_ComplexType v start (cs1 @ Elem s cs' # cs2) =
         unmarshal_ComplexType v start (cs1 @ cs2)"
  using assms
  by (simp add: unmarshal_ComplexType.simps ComplexType_children_skip split: sum.splits)

theorem ComplexType_skips_unrecognized_witness:
  "local (tag ''attributeGroup'' [attr ''ref'' ''tns:common''])
     \<notin> {''annotation'', ''all'', ''complexContent'', ''sequence''}
   \<and> unmarshal_ComplexType zero_ComplexType (tag ''complexType'' [attr ''name'' ''T''])
       ([Elem (tag ''sequence'' []) [Elem (tag ''element'' [attr ''name'' ''a'']) []]]
        @ Elem (tag ''attributeGroup'' [attr ''ref'' ''tns:common''])
            [Elem (tag ''element'' [attr ''minOccurs'' ''many'']) []]
        # [CharDataN ''  '']) =
     Inr (ComplexType \<lparr>Space = [], Local = ''complexType''\<rparr> ''T'' False [] [] None
           (Some (Sequence \<lparr>Space = [], Local = ''sequence''\<rparr> []
                   [Element \<lparr>Space = [], Local = ''element''\<rparr> ''a'' [] [] 0 [] False None] [])))"
proof -
  have h: "local (tag ''attributeGroup'' [attr ''ref'' ''tns:common''])
     \<notin> {''annotation'', ''all'', ''complexContent'', ''sequence''}"
    by (simp add: local_def tag_def)
  have e: "unmarshal_ComplexType zero_ComplexType (tag ''complexType'' [attr ''name'' ''T''])
       ([Elem (tag ''sequence'' []) [Elem (tag ''element'' [attr ''name'' ''a'']) []]]
        @ [CharDataN ''  '']) =
     Inr (ComplexType \<lparr>Space = [], Local = ''complexType''\<rparr> ''T'' False [] [] None
           (Some (Sequence \<lparr>Space = [], Local = ''sequence''\<rparr> []
                   [Element \<lparr>Space = [], Local = ''element''\<rparr> ''a'' [] [] 0 [] False None] [])))"
    by (simp add: eval_simps)
  show ?thesis
    using h e ComplexType_skips_unrecognized [OF h, of zero_ComplexType
        "tag ''complexType'' [attr ''name'' ''T'']"
        "[Elem (tag ''sequence'' []) [Elem (tag ''element'' [attr ''name'' ''a'']) []]]"
        "[Elem (tag ''element'' [attr ''minOccurs'' ''many'']) []]" "[CharDataN ''  '']"]
    by simp
qed

section \<open>The order of the children of a sequence\<close>

lemma foldM_Inr: "foldM (\<lambda>a v. Inr v) xs v = Inr v"
  by (induction xs) auto

lemma Sequence_set_simps:
  "Sequence_ComplexTypes (set_Sequence_XMLName n v) = Sequence_ComplexTypes v"
  "Sequence_Elements (set_Sequence_XMLName n v) = Sequence_Elements v"
  "Sequence_Any (set_Sequence_XMLName n v) = Sequence_Any v"
  "Sequence_ComplexTypes (set_Sequence_ComplexTypes cts v) = cts"
  "Sequence_Elements (set_Sequence_ComplexTypes cts v) = Sequence_Elements v"
  "Sequence_Any (set_Sequence_ComplexTypes cts v) = Sequence_Any v"
  "Sequence_ComplexTypes (set_Sequence_Elements els v) = Sequence_ComplexTypes v"
  "Sequence_Elements (set_Sequence_Elements els v) = els"
  "Sequence_Any (set_Sequence_Elements els v) = Sequence_Any v"
  "Sequence_ComplexTypes (set_Sequence_Any anys v) = Sequence_ComplexTypes v"
  "Sequence_Elements (set_Sequence_Any anys v) = Sequence_Elements v"
  "Sequence_Any (set_Sequence_Any anys v) = anys"
  by (cases v; simp)+

lemma Sequence_children_order:
  "Sequence_children cs v = Inr sq \<Longrightarrow>
   map Inr (Sequence_ComplexTypes sq) = map Inr (Sequence_ComplexTypes v) @ decoded_ComplexTypes cs
   \<and> map Inr (Sequence_Elements sq) = map Inr (Sequence_Elements v) @ decoded_Elements cs
   \<and> map Inr (Sequence_Any sq) = map Inr (Sequence_Any v) @ decoded_Any cs"
proof (induction cs arbitrary: v)
  case Nil
  then show ?case
    by (simp add: decoded_ComplexTypes_def decoded_Elements_def decoded_Any_def)
next
  case (Cons c cs)
  show ?case
  proof (cases c)
    case (Elem s cs')
    consider (ct) "local s = ''complexType''" | (el) "local s = ''element''"
      | (any) "local s = ''any''"
      | (other) "local s \<noteq> ''complexType''" "local s \<noteq> ''element''" "local s \<noteq> ''any''"
      by blast
    then show ?thesis
    proof cases
      case ct
      with Cons.prems Elem obtain x where
        x: "unmarshal_ComplexType zero_ComplexType s cs' = Inr x"
        and rest: "Sequence_children cs
                     (set_Sequence_ComplexTypes (Sequence_ComplexTypes v @ [x]) v) = Inr sq"
        by (auto simp: assign_def split: sum.splits)
      from Cons.IH [OF rest] x ct Elem show ?thesis
        by (simp add: Sequence_set_simps decoded_ComplexTypes_def decoded_Elements_def
            decoded_Any_def)
    next
      case el
      with Cons.prems Elem obtain x where
        x: "unmarshal_Element zero_Element s cs' = Inr x"
        and rest: "Sequence_children cs
                     (set_Sequence_Elements (Sequence_Elements v @ [x]) v) = Inr sq"
        by (auto simp: assign_def split: sum.splits)
      from Cons.IH [OF rest] x el Elem show ?thesis
        by (simp add: Sequence_set_simps decoded_ComplexTypes_def decoded_Elements_def
            decoded_Any_def)
    next
      case any
      with Cons.prems Elem obtain x where
        x: "unmarshal_AnyElement zero_AnyElement s cs' = Inr x"
        and rest: "Sequence_children cs (set_Sequence_Any (Sequence_Any v @ [x]) v) = Inr sq"
        by (auto simp: assign_def split: sum.splits)
      from Cons.IH [OF rest] x any Elem show ?thesis
        by (simp add: Sequence_set_simps decoded_ComplexTypes_def decoded_Elements_def
            decoded_Any_def)
    next
      case other
      with Cons.prems Elem have rest: "Sequence_children cs v = Inr sq"
        by simp
      from Cons.IH [OF rest] other Elem show ?thesis
        by (simp add: decoded_ComplexTypes_def decoded_Elements_def decoded_Any_def)
    qed
  qed (use Cons in \<open>auto simp: decoded_ComplexTypes_def decoded_Elements_def decoded_Any_def\<close>)
qed

text \<open>
  C1, as amended.  Within each kind the decoded \<open>Sequence\<close> keeps the order of the
  source: after the entries the destination had, \<open>ComplexTypes\<close>, \<open>Elements\<close> and \<open>Any\<close>
  hold the decodings of the \<^verbatim>\<open>complexType\<close>, \<^verbatim>\<open>element\<close> and \<^verbatim>\<open>any\<close> children, one by
  one and in document order.  The position of a child among the children of the
  other kinds is not recorded.
\<close>

theorem Sequence_order_within_kind:
  assumes "unmarshal_Sequence v start cs = Inr sq"
  shows "map Inr (Sequence_ComplexTypes sq) =
           map Inr (Sequence_ComplexTypes v) @ decoded_ComplexTypes cs
         \<and> map Inr (Sequence_Elements sq) = map Inr (Sequence_Elements v) @ decoded_Elements cs
         \<and> map Inr (Sequence_Any sq) = map Inr (Sequence_Any v) @ decoded_Any cs"
proof -
  from assms have "Sequence_children cs (set_Sequence_XMLName (StartElement_Name start) v) = Inr sq"
    by (auto simp: unmarshal_Sequence.simps struct_start_def foldM_Inr split: sum.splits if_splits)
  from Sequence_children_order [OF this] show ?thesis
    by (simp add: Sequence_set_simps)
qed

text \<open>
  C1 as stated fails: the children [element a, any, element b] and the children
  [element a, element b, any] decode to the same \<open>Sequence\<close>, so no combined list of
  the decoded value reproduces the order of the source across the kinds.
\<close>

theorem Sequence_order_lost_counterexample:
  "unmarshal_Sequence zero_Sequence (tag ''sequence'' [])
     [Elem (tag ''element'' [attr ''name'' ''a'']) [], Elem (tag ''any'' []) [],
      Elem (tag ''element'' [attr ''name'' ''b'']) []] =
     Inr (Sequence \<lparr>Space = [], Local = ''sequence''\<rparr> []
           [Element \<lparr>Space = [], Local = ''element''\<rparr> ''a'' [] [] 0 [] False None,
            Element \<lparr>Space = [], Local = ''element''\<rparr> ''b'' [] [] 0 [] False None]
           [\<lparr>AnyElement_XMLName = \<lparr>Space = [], Local = ''any''\<rparr>, AnyElement_Min = 0,
             AnyElement_Max = []\<rparr>])
   \<and> unmarshal_Sequence zero_Sequence (tag ''sequence'' [])
     [Elem (tag ''element'' [attr ''name'' ''a'']) [],
      Elem (tag ''element'' [attr ''name'' ''b'']) [], Elem (tag ''any'' []) []] =
     Inr (Sequence \<lparr>Space = [], Local = ''sequence''\<rparr> []
           [Element \<lparr>Space = [], Local = ''element''\<rparr> ''a'' [] [] 0 [] False None,
            Element \<lparr>Space = [], Local = ''element''\<rparr> ''b'' [] [] 0 [] False None]
           [\<lparr>AnyElement_XMLName = \<lparr>Space = [], Local = ''any''\<rparr>, AnyElement_Min = 0,
             AnyElement_Max = []\<rparr>])"
  by (simp add: eval_simps)

theorem Sequence_order_within_kind_witness:
  "unmarshal_Sequence zero_Sequence (tag ''sequence'' [])
     [Elem (tag ''element'' [attr ''name'' ''a'']) [], Elem (tag ''any'' []) [],
      Elem (tag ''element'' [attr ''name'' ''b'']) []] =
     Inr (Sequence \<lparr>Space = [], Local = ''sequence''\<rparr> []
           [Element \<lparr>Space = [], Local = ''element''\<rparr> ''a'' [] [] 0 [] False None,
            Element \<lparr>Space = [], Local = ''element''\<rparr> ''b'' [] [] 0 [] False None]
           [\<lparr>AnyElement_XMLName = \<lparr>Space = [], Local = ''any''\<rparr>, AnyElement_Min = 0,
             AnyElement_Max = []\<rparr>])
   \<and> decoded_Elements
       [Elem (tag ''element'' [attr ''name'' ''a'']) [], Elem (tag ''any'' []) [],
        Elem (tag ''element'' [attr ''name'' ''b'']) []] =
     [Inr (Element \<lparr>Space = [], Local = ''element''\<rparr> ''a'' [] [] 0 [] False None),
      Inr (Element \<lparr>Space = [], Local = ''element''\<rparr> ''b'' [] [] 0 [] False None)]
   \<and> decoded_Any
       [Elem (tag ''element'' [attr ''name'' ''a'']) [], Elem (tag ''any'' []) [],
        Elem (tag ''element'' [attr ''name'' ''b'']) []] =
     [Inr \<lparr>AnyElement_XMLName = \<lparr>Space = [], Local = ''any''\<rparr>, AnyElement_Min = 0,
           AnyElement_Max = []\<rparr>]
   \<and> decoded_ComplexTypes
       [Elem (tag ''element'' [attr ''name'' ''a'']) [], Elem (tag ''any'' []) [],
        Elem (tag ''element'' [attr ''name'' ''b'']) []] = []"
proof -
  have h: "unmarshal_Sequence zero_Sequence (tag ''sequence'' [])
     [Elem (tag ''element'' [attr ''name'' ''a'']) [], Elem (tag ''any'' []) [],
      Elem (tag ''element'' [attr ''name'' ''b'']) []] =
     Inr (Sequence \<lparr>Space = [], Local = ''sequence''\<rparr> []
           [Element \<lparr>Space = [], Local = ''element''\<rparr> ''a'' [] [] 0 [] False None,
            Element \<lparr>Space = [], Local = ''element''\<rparr> ''b'' [] [] 0 [] False None]
           [\<lparr>AnyElement_XMLName = \<lparr>Space = [], Local = ''any''\<rparr>, AnyElement_Min = 0,
             AnyElement_Max = []\<rparr>])"
    by (simp add: eval_simps)
  show ?thesis
    using h Sequence_order_within_kind [OF h]
    by (simp add: zero_Sequence_def decoded_ComplexTypes_def local_def tag_def)
qed

section \<open>An error of UnmarshalXML ends the decoding of the document\<close>




















end
